theory Spec2Isabelle
  imports Complex_Main
begin

section \<open>Regression metrics of \<open>bayesian_benchmarks/tasks/regression.py\<close>\<close>

text \<open>
  The function \<open>run\<close> of \<open>tasks/regression.py\<close> fits a model, takes its prediction
  \<open>m, v = model.predict(data.X_test)\<close> and computes six metrics from \<open>m\<close>, \<open>v\<close>,
  \<open>data.Y_test\<close> and \<open>data.Y_std\<close>. The embedding below is of lines 34 to 90 of that
  function: the three assertions, the rank-2 branch and the rank-3 branch. The inputs of
  the embedding are the two predicted arrays and the two fields of \<open>data\<close>. Lines 92 to
  97, which merge the arguments of the run into the result and write it to the database
  unless \<open>is_test\<close> is set, are outside the embedding: the result below is what \<open>run\<close>
  returns in test mode.

  Numbers are modelled as exact reals. The one non-number that the libraries produce
  by definition on real inputs, NaN, is a value of its own: \<open>scipy.stats.norm.logpdf\<close>
  returns it where \<open>scale \<le> 0\<close>, and numpy's mean of an empty array is NaN. Rounding and
  overflow of binary floating point are not modelled.
\<close>

subsection \<open>Values, errors and arrays\<close>

datatype error = AssertionError | IndexError | ValueError

datatype fval = Fin real | NaN

text \<open>A numpy array: its shape and its elements in row-major order.\<close>

datatype 'a ndarray = NDArray (shape: "nat list") (data: "'a list")

definition well_shaped :: "'a ndarray \<Rightarrow> bool" where
  "well_shaped a \<longleftrightarrow> length (data a) = prod_list (shape a)"

definition bind_err :: "error + 'a \<Rightarrow> ('a \<Rightarrow> error + 'b) \<Rightarrow> error + 'b" where
  "bind_err x f = (case x of Inl e \<Rightarrow> Inl e | Inr a \<Rightarrow> f a)"

subsection \<open>numpy broadcasting\<close>

text \<open>
  Two shapes are aligned at their last axis; two aligned extents are compatible when
  they are equal or one of them is 1, and an operand that has run out of axes counts
  as extent 1. \<open>bshape_rev\<close> works on the reversed shapes.
\<close>

fun bshape_rev :: "nat list \<Rightarrow> nat list \<Rightarrow> nat list option" where
  "bshape_rev [] ys = Some ys"
| "bshape_rev (x # xs) [] = Some (x # xs)"
| "bshape_rev (x # xs) (y # ys) =
     (case bshape_rev xs ys of
        None \<Rightarrow> None
      | Some zs \<Rightarrow>
          if x = y \<or> y = 1 then Some (x # zs)
          else if x = 1 then Some (y # zs)
          else None)"

definition broadcast_shapes :: "nat list \<Rightarrow> nat list \<Rightarrow> nat list option" where
  "broadcast_shapes s t = map_option rev (bshape_rev (rev s) (rev t))"

text \<open>
  \<open>bidx ds ts i\<close>: the flat index, in an array of (reversed) shape \<open>ds\<close>, of the element
  that stands at flat index \<open>i\<close> of its broadcast to the (reversed) shape \<open>ts\<close>. An axis
  of extent 1 is read at position 0 whatever the target position.
\<close>

fun bidx :: "nat list \<Rightarrow> nat list \<Rightarrow> nat \<Rightarrow> nat" where
  "bidx (d # ds) (t # ts) i = (if d = 1 then 0 else i mod t) + d * bidx ds ts (i div t)"
| "bidx [] ts i = 0"
| "bidx (d # ds) [] i = 0"

definition broadcast_to :: "'a ndarray \<Rightarrow> nat list \<Rightarrow> 'a list" where
  "broadcast_to a t =
     map (\<lambda>i. data a ! bidx (rev (shape a)) (rev t) i) [0..<prod_list t]"

text \<open>An elementwise binary operation; incompatible shapes raise \<open>ValueError\<close>.\<close>

definition bop :: "('a \<Rightarrow> 'b \<Rightarrow> 'c) \<Rightarrow> 'a ndarray \<Rightarrow> 'b ndarray \<Rightarrow> error + 'c ndarray" where
  "bop f a b =
     (case broadcast_shapes (shape a) (shape b) of
        None \<Rightarrow> Inl ValueError
      | Some t \<Rightarrow> Inr (NDArray t (map2 f (broadcast_to a t) (broadcast_to b t))))"

definition amap :: "('a \<Rightarrow> 'b) \<Rightarrow> 'a ndarray \<Rightarrow> 'b ndarray" where
  "amap f a = NDArray (shape a) (map f (data a))"

text \<open>\<open>a[n]\<close> on the first axis of an array of rank at least 1.\<close>

definition getitem :: "'a ndarray \<Rightarrow> nat \<Rightarrow> error + 'a ndarray" where
  "getitem a n =
     (if n < hd (shape a)
      then Inr (NDArray (tl (shape a))
                  (take (prod_list (tl (shape a)))
                     (drop (n * prod_list (tl (shape a))) (data a))))
      else Inl IndexError)"

subsection \<open>Library functions\<close>

text \<open>
  \<open>np.average(a)\<close> and \<open>np.mean(a)\<close> over all elements: NaN for an empty array and
  for an array that holds a NaN.
\<close>

definition is_nan :: "fval \<Rightarrow> bool" where
  "is_nan x = (case x of NaN \<Rightarrow> True | Fin r \<Rightarrow> False)"

definition the_fin :: "fval \<Rightarrow> real" where
  "the_fin x = (case x of Fin r \<Rightarrow> r | NaN \<Rightarrow> 0)"

definition np_average :: "fval list \<Rightarrow> fval" where
  "np_average xs =
     (if xs = [] \<or> list_ex is_nan xs then NaN
      else Fin (sum_list (map the_fin xs) / real (length xs)))"

text \<open>\<open>x ** 0.5\<close> on a scalar result.\<close>

definition fsqrt :: "fval \<Rightarrow> fval" where
  "fsqrt x = (case x of NaN \<Rightarrow> NaN | Fin r \<Rightarrow> if 0 \<le> r then Fin (sqrt r) else NaN)"

text \<open>\<open>np.clip(x, lo, hi)\<close> is \<open>minimum(maximum(x, lo), hi)\<close>; NaN stays NaN.\<close>

definition np_clip :: "real \<Rightarrow> real \<Rightarrow> fval \<Rightarrow> fval" where
  "np_clip lo hi x = (case x of NaN \<Rightarrow> NaN | Fin r \<Rightarrow> Fin (min (max r lo) hi))"

text \<open>
  \<open>scipy.stats.norm.logpdf(x, loc, scale)\<close> on one element: with \<open>y = (x - loc) / scale\<close>
  it is \<open>-y**2 / 2 - log(sqrt(2 pi)) - log(scale)\<close> where \<open>scale > 0\<close>, and the
  distribution's bad value NaN elsewhere.
\<close>

definition norm_logpdf1 :: "real \<Rightarrow> real \<Rightarrow> real \<Rightarrow> fval" where
  "norm_logpdf1 x loc scale =
     (if 0 < scale
      then Fin (- (((x - loc) / scale)\<^sup>2) / 2 - ln (sqrt (2 * pi)) - ln scale)
      else NaN)"

text \<open>The three arguments are broadcast together.\<close>

definition norm_logpdf ::
  "real ndarray \<Rightarrow> real ndarray \<Rightarrow> real ndarray \<Rightarrow> error + fval ndarray" where
  "norm_logpdf x loc scale =
     bind_err (bop Pair x loc)
       (\<lambda>xl. bop (\<lambda>p s. norm_logpdf1 (fst p) (snd p) s) xl scale)"

text \<open>
  \<open>scipy.special.logsumexp\<close> on one column of values: the maximum is subtracted before
  exponentiating and added back after the logarithm.
\<close>

definition logsumexp1 :: "fval list \<Rightarrow> fval" where
  "logsumexp1 xs =
     (if list_ex is_nan xs then NaN
      else (let rs = map the_fin xs; a_max = Max (set rs)
            in Fin (ln (sum_list (map (\<lambda>r. exp (r - a_max)) rs)) + a_max)))"

text \<open>
  \<open>logsumexp(ls, axis=0)\<close> of a Python list of arrays: the list is stacked along a new
  first axis, which needs arrays of one shape, and the reduction over an empty axis
  raises.
\<close>

definition logsumexp :: "fval ndarray list \<Rightarrow> error + fval ndarray" where
  "logsumexp ls =
     (case ls of
        [] \<Rightarrow> Inl ValueError
      | a # as \<Rightarrow>
          if list_all (\<lambda>b. shape b = shape a) as
          then Inr (NDArray (shape a)
                 (map (\<lambda>i. logsumexp1 (map (\<lambda>b. data b ! i) ls)) [0..<prod_list (shape a)]))
          else Inl ValueError)"

text \<open>\<open>np.mean(m, axis=0)\<close> of an array of rank at least 1 with a non-empty first axis.\<close>

definition mean_axis0 :: "real ndarray \<Rightarrow> real ndarray" where
  "mean_axis0 a =
     (let k = prod_list (tl (shape a)); s = hd (shape a)
      in NDArray (tl (shape a))
           (map (\<lambda>i. sum_list (map (\<lambda>n. data a ! (n * k + i)) [0..<s]) / real s) [0..<k]))"

subsection \<open>The metrics\<close>

definition log_eps :: real where
  "log_eps = ln (1 / 10 ^ 12)"

definition log_1_minus_eps :: real where
  "log_1_minus_eps = ln (1 - 1 / 10 ^ 12)"

text \<open>Lines 44-45 and 67-68: \<open>l\<close>, the clipped log-densities of \<open>Y_test\<close>.\<close>

definition l_point :: "real ndarray \<Rightarrow> real ndarray \<Rightarrow> real ndarray \<Rightarrow> error + fval ndarray" where
  "l_point m v Y_test =
     bind_err (norm_logpdf Y_test m (amap sqrt v))
       (\<lambda>l. Inr (amap (np_clip log_eps log_1_minus_eps) l))"

text \<open>Lines 48-49 and 71-72: \<open>lu\<close>, the same on the de-normalized scale.\<close>

definition lu_point ::
  "real ndarray \<Rightarrow> real ndarray \<Rightarrow> real ndarray \<Rightarrow> real ndarray \<Rightarrow> error + fval ndarray" where
  "lu_point m v Y_test Y_std =
     bind_err (bop (*) Y_test Y_std) (\<lambda>yu.
     bind_err (bop (*) m Y_std) (\<lambda>mu.
     bind_err (bop (*) (amap sqrt v) Y_std) (\<lambda>su.
     bind_err (norm_logpdf yu mu su)
       (\<lambda>lu. Inr (amap (np_clip log_eps log_1_minus_eps) lu)))))"

text \<open>Lines 55-59 and 86-90: the residual metrics from the elements of \<open>d\<close> and \<open>du\<close>.\<close>

definition residual_values :: "real list \<Rightarrow> real list \<Rightarrow> fval \<times> fval \<times> fval \<times> fval" where
  "residual_values d du =
     (np_average (map (\<lambda>x. Fin \<bar>x\<bar>) d),
      np_average (map (\<lambda>x. Fin \<bar>x\<bar>) du),
      fsqrt (np_average (map (\<lambda>x. Fin (x\<^sup>2)) d)),
      fsqrt (np_average (map (\<lambda>x. Fin (x\<^sup>2)) du)))"

text \<open>Lines 53-59 and 84-90: \<open>du = d * data.Y_std\<close> and the residual metrics.\<close>

definition residual_metrics ::
  "real ndarray \<Rightarrow> real ndarray \<Rightarrow> error + (fval \<times> fval \<times> fval \<times> fval)" where
  "residual_metrics d Y_std =
     bind_err (bop (*) d Y_std) (\<lambda>du. Inr (residual_values (data d) (data du)))"

text \<open>The dictionary \<open>res\<close> with its six entries.\<close>

definition mk_res :: "fval \<Rightarrow> fval \<Rightarrow> fval \<times> fval \<times> fval \<times> fval \<Rightarrow> (string \<rightharpoonup> fval)" where
  "mk_res ll llu r =
     [''test_loglik'' \<mapsto> ll,
      ''test_loglik_unnormalized'' \<mapsto> llu,
      ''test_mae'' \<mapsto> fst r,
      ''test_mae_unnormalized'' \<mapsto> fst (snd r),
      ''test_rmse'' \<mapsto> fst (snd (snd r)),
      ''test_rmse_unnormalized'' \<mapsto> snd (snd (snd r))]"

text \<open>Lines 42-59: the branch for predictions of rank 2.\<close>

definition run_point ::
  "real ndarray \<Rightarrow> real ndarray \<Rightarrow> real ndarray \<Rightarrow> real ndarray \<Rightarrow> error + (string \<rightharpoonup> fval)" where
  "run_point m v Y_test Y_std =
     bind_err (l_point m v Y_test) (\<lambda>l.
     bind_err (lu_point m v Y_test Y_std) (\<lambda>lu.
     bind_err (bop (-) Y_test m) (\<lambda>d.
     bind_err (residual_metrics d Y_std) (\<lambda>r.
       Inr (mk_res (np_average (data l)) (np_average (data lu)) r)))))"

text \<open>
  Lines 66-73: the loop over the samples, which appends one \<open>l\<close> and one \<open>lu\<close> to the
  two lists in each round.
\<close>

fun sample_loop ::
  "real ndarray \<Rightarrow> real ndarray \<Rightarrow> real ndarray \<Rightarrow> real ndarray \<Rightarrow> nat list
     \<Rightarrow> error + (fval ndarray list \<times> fval ndarray list)" where
  "sample_loop m v Y_test Y_std [] = Inr ([], [])"
| "sample_loop m v Y_test Y_std (n # ns) =
     bind_err (getitem m n) (\<lambda>mn.
     bind_err (getitem v n) (\<lambda>vn.
     bind_err (l_point mn vn Y_test) (\<lambda>l.
     bind_err (getitem m n) (\<lambda>mn'.
     bind_err (getitem v n) (\<lambda>vn'.
     bind_err (lu_point mn' vn' Y_test Y_std) (\<lambda>lu.
     bind_err (sample_loop m v Y_test Y_std ns) (\<lambda>r.
       Inr (l # fst r, lu # snd r))))))))"

text \<open>Lines 76-77 and 80-81: the Gaussian mixture predictive likelihood.\<close>

definition mixture_loglik :: "nat \<Rightarrow> fval ndarray list \<Rightarrow> error + fval" where
  "mixture_loglik s ls =
     bind_err (logsumexp ls) (\<lambda>a.
       Inr (np_average
              (data (amap (\<lambda>x. case x of NaN \<Rightarrow> NaN | Fin r \<Rightarrow> Fin (r - ln (real s))) a))))"

text \<open>Lines 61-90: the branch for predictions of rank 3.\<close>

definition run_samples ::
  "real ndarray \<Rightarrow> real ndarray \<Rightarrow> real ndarray \<Rightarrow> real ndarray \<Rightarrow> error + (string \<rightharpoonup> fval)" where
  "run_samples m v Y_test Y_std =
     bind_err (sample_loop m v Y_test Y_std [0..<hd (shape m)]) (\<lambda>ls.
     bind_err (mixture_loglik (hd (shape m)) (fst ls)) (\<lambda>ll.
     bind_err (mixture_loglik (hd (shape m)) (snd ls)) (\<lambda>llu.
     bind_err (bop (-) Y_test (mean_axis0 m)) (\<lambda>d.
     bind_err (residual_metrics d Y_std) (\<lambda>r.
       Inr (mk_res ll llu r))))))"

text \<open>
  Lines 34-90. After the third assertion every element of \<open>v\<close> is at least 0, so that
  \<open>v ** 0.5\<close> is the real square root.
\<close>

definition run ::
  "real ndarray \<Rightarrow> real ndarray \<Rightarrow> real ndarray \<Rightarrow> real ndarray \<Rightarrow> error + (string \<rightharpoonup> fval)" where
  "run m v Y_test Y_std =
     (if length (shape m) \<noteq> length (shape v) then Inl AssertionError
      else if length (shape m) \<noteq> 2 \<and> length (shape m) \<noteq> 3 then Inl AssertionError
      else if \<not> list_all (\<lambda>x. 0 \<le> x) (data v) then Inl AssertionError
      else if length (shape m) = 2 then run_point m v Y_test Y_std
      else run_samples m v Y_test Y_std)"

subsection \<open>The mixture log-likelihood as the specification words it\<close>

text \<open>
  The log-density of the equal-weight mixture of the components whose log-densities at
  one test element are \<open>cs\<close>: \<open>log((1/S) * sum_s p_s(y))\<close>.
\<close>

definition mixture_logdensity :: "fval list \<Rightarrow> fval" where
  "mixture_logdensity cs =
     (if list_ex is_nan cs then NaN
      else Fin (ln (sum_list (map (\<lambda>c. exp (the_fin c)) cs) / real (length cs))))"

text \<open>The clipped Gaussian log-density of one element.\<close>

definition clipped_logpdf1 :: "real \<Rightarrow> real \<Rightarrow> real \<Rightarrow> fval" where
  "clipped_logpdf1 x loc scale = np_clip log_eps log_1_minus_eps (norm_logpdf1 x loc scale)"

text \<open>
  The clipped log-density of test element \<open>i\<close> under component \<open>s\<close>, where \<open>K = N * D\<close> is
  the number of test elements and \<open>y\<close>, \<open>m\<close>, \<open>v\<close> are the elements of \<open>Y_test\<close>, of the mean
  and of the variance in row-major order: on the normalized scale, and on the
  de-normalized scale with \<open>sd ! i\<close> the value of \<open>Y_std\<close> that belongs to element \<open>i\<close>.
\<close>

definition component_l :: "nat \<Rightarrow> real list \<Rightarrow> real list \<Rightarrow> real list \<Rightarrow> nat \<Rightarrow> nat \<Rightarrow> fval" where
  "component_l K y m v s i =
     clipped_logpdf1 (y ! i) (m ! (s * K + i)) (sqrt (v ! (s * K + i)))"

definition component_lu ::
  "nat \<Rightarrow> real list \<Rightarrow> real list \<Rightarrow> real list \<Rightarrow> real list \<Rightarrow> nat \<Rightarrow> nat \<Rightarrow> fval" where
  "component_lu K y m v sd s i =
     clipped_logpdf1 (y ! i * sd ! i) (m ! (s * K + i) * sd ! i)
       (sqrt (v ! (s * K + i)) * sd ! i)"

text \<open>
  The mean over the \<open>K\<close> test elements of the mixture log-density of \<open>S\<close> components,
  \<open>c s i\<close> being the log-density of element \<open>i\<close> under component \<open>s\<close>.
\<close>

definition spec_mixture_loglik :: "nat \<Rightarrow> nat \<Rightarrow> (nat \<Rightarrow> nat \<Rightarrow> fval) \<Rightarrow> fval" where
  "spec_mixture_loglik S K c =
     np_average (map (\<lambda>i. mixture_logdensity (map (\<lambda>s. c s i) [0..<S])) [0..<K])"



text \<open>The six keys of the result.\<close>

definition metric_names :: "string list" where
  "metric_names =
     [''test_loglik'', ''test_loglik_unnormalized'', ''test_mae'', ''test_mae_unnormalized'',
      ''test_rmse'', ''test_rmse_unnormalized'']"


subsection \<open>Valid inputs\<close>

text \<open>
  The preconditions of the evaluator as the specification lists them (equal shapes,
  rank 2 or 3, no negative variance), for arrays that hold as many elements as their
  shape says, test targets of shape \<open>[N, D]\<close> and, at rank 3, an ensemble of at least
  one component.
\<close>

definition valid_input :: "real ndarray \<Rightarrow> real ndarray \<Rightarrow> real ndarray \<Rightarrow> bool" where
  "valid_input m v Y_test \<longleftrightarrow>
     shape m = shape v \<and> well_shaped m \<and> well_shaped v \<and> well_shaped Y_test
     \<and> list_all (\<lambda>x. 0 \<le> x) (data v)
     \<and> (length (shape m) = 2 \<and> shape m = shape Y_test
          \<or> length (shape m) = 3 \<and> tl (shape m) = shape Y_test \<and> 0 < hd (shape m))"

text \<open>The two log-likelihood entries of a result.\<close>

definition logliks :: "error + (string \<rightharpoonup> fval) \<Rightarrow> error + (fval option \<times> fval option)" where
  "logliks r = map_sum id (\<lambda>res. (res ''test_loglik'', res ''test_loglik_unnormalized'')) r"

section \<open>Properties\<close>

subsection \<open>Evaluation, broadcasting of equal shapes and of a scalar\<close>

lemma bind_err_simps [simp]:
  "bind_err (Inl e) f = Inl e"
  "bind_err (Inr a) f = f a"
  by (simp_all add: bind_err_def)

lemmas eval_defs = run_def run_point_def run_samples_def l_point_def lu_point_def
  residual_metrics_def residual_values_def mk_res_def norm_logpdf_def bop_def broadcast_shapes_def
  broadcast_to_def amap_def np_clip_def np_average_def fsqrt_def is_nan_def the_fin_def
  getitem_def mixture_loglik_def logsumexp_def mean_axis0_def

lemma bshape_rev_same: "bshape_rev s s = Some s"
  by (induction s) simp_all

lemma broadcast_shapes_same: "broadcast_shapes s s = Some s"
  by (simp add: broadcast_shapes_def bshape_rev_same)



text \<open>Broadcasting an array to its own shape reads every element at its own index.\<close>

lemma bidx_same: "i < prod_list r \<Longrightarrow> bidx r r i = i"
proof (induction r arbitrary: i)
  case Nil
  then show ?case by simp
next
  case (Cons d ds)
  from Cons.prems have "i div d < prod_list ds"
    by (simp add: less_mult_imp_div_less mult.commute)
  then have "bidx ds ds (i div d) = i div d" by (rule Cons.IH)
  then show ?case by simp
qed

lemma prod_list_rev_nat: "prod_list (rev s) = prod_list (s :: nat list)"
  by (induction s) (simp_all add: mult.commute)

lemma broadcast_to_same: "well_shaped a \<Longrightarrow> broadcast_to a (shape a) = data a"
proof -
  assume w: "well_shaped a"
  have "map (\<lambda>i. data a ! bidx (rev (shape a)) (rev (shape a)) i) [0..<prod_list (shape a)]
      = map (\<lambda>i. data a ! i) [0..<prod_list (shape a)]"
    by (rule map_cong) (simp_all add: bidx_same prod_list_rev_nat)
  also have "\<dots> = data a"
    using w map_nth [of "data a"] by (simp add: well_shaped_def)
  finally show ?thesis by (simp add: broadcast_to_def)
qed


lemma bop_same:
  "well_shaped a \<Longrightarrow> well_shaped b \<Longrightarrow> shape b = shape a \<Longrightarrow>
   bop f a b = Inr (NDArray (shape a) (map2 f (data a) (data b)))"
  using broadcast_to_same [of a] broadcast_to_same [of b]
  by (simp add: bop_def broadcast_shapes_same)


lemma bop_well_shaped: "bop f a b = Inr c \<Longrightarrow> well_shaped c"
  by (auto simp add: bop_def well_shaped_def broadcast_to_def split: option.splits)

lemma length_broadcast_to: "length (broadcast_to a t) = prod_list t"
  by (simp add: broadcast_to_def)

text \<open>An operand that broadcasts to the shape of the other one.\<close>

lemma bop_onto:
  "well_shaped a \<Longrightarrow> broadcast_shapes (shape a) (shape b) = Some (shape a) \<Longrightarrow>
   bop f a b = Inr (NDArray (shape a) (map2 f (data a) (broadcast_to b (shape a))))"
  using broadcast_to_same [of a] by (simp add: bop_def)

lemma norm_logpdf_same:
  assumes "well_shaped x" "well_shaped loc" "well_shaped scale"
    "shape loc = shape x" "shape scale = shape x"
  shows "norm_logpdf x loc scale =
    Inr (NDArray (shape x)
      (map (\<lambda>i. norm_logpdf1 (data x ! i) (data loc ! i) (data scale ! i))
         [0..<prod_list (shape x)]))"
proof -
  let ?k = "prod_list (shape x)"
  have lens: "length (data x) = ?k" "length (data loc) = ?k" "length (data scale) = ?k"
    using assms by (simp_all add: well_shaped_def)
  have 1: "bop Pair x loc = Inr (NDArray (shape x) (zip (data x) (data loc)))"
    using bop_same [OF assms(1,2,4), of Pair] by simp
  have w: "well_shaped (NDArray (shape x) (zip (data x) (data loc)))"
    using lens by (simp add: well_shaped_def)
  have 2: "bop (\<lambda>p s. norm_logpdf1 (fst p) (snd p) s)
             (NDArray (shape x) (zip (data x) (data loc))) scale
     = Inr (NDArray (shape x)
         (map2 (\<lambda>p s. norm_logpdf1 (fst p) (snd p) s) (zip (data x) (data loc)) (data scale)))"
    using bop_same [OF w assms(3), of "\<lambda>p s. norm_logpdf1 (fst p) (snd p) s"] assms(5) by simp
  have 3: "map2 (\<lambda>p s. norm_logpdf1 (fst p) (snd p) s) (zip (data x) (data loc)) (data scale)
     = map (\<lambda>i. norm_logpdf1 (data x ! i) (data loc ! i) (data scale ! i)) [0..<?k]"
    using lens by (intro nth_equalityI) simp_all
  show ?thesis by (simp add: norm_logpdf_def 1 2 3)
qed

lemma l_point_same:
  assumes "well_shaped m" "well_shaped v" "well_shaped y" "shape m = shape y" "shape v = shape y"
  shows "l_point m v y =
    Inr (NDArray (shape y)
      (map (component_l (prod_list (shape y)) (data y) (data m) (data v) 0)
         [0..<prod_list (shape y)]))"
proof -
  have w: "well_shaped (amap sqrt v)" "shape (amap sqrt v) = shape y"
    using assms by (simp_all add: well_shaped_def amap_def)
  have "\<And>i. i < prod_list (shape y) \<Longrightarrow> data (amap sqrt v) ! i = sqrt (data v ! i)"
    using assms by (simp add: amap_def well_shaped_def)
  then show ?thesis
    using norm_logpdf_same [OF assms(3,1) w(1) assms(4) w(2)]
    by (simp add: l_point_def amap_def clipped_logpdf1_def component_l_def)
qed

lemma lu_point_same:
  assumes "well_shaped m" "well_shaped v" "well_shaped y" "shape m = shape y" "shape v = shape y"
    "broadcast_shapes (shape y) (shape s) = Some (shape y)"
  shows "lu_point m v y s =
    Inr (NDArray (shape y)
      (map (component_lu (prod_list (shape y)) (data y) (data m) (data v)
              (broadcast_to s (shape y)) 0)
         [0..<prod_list (shape y)]))"
proof -
  let ?k = "prod_list (shape y)"
  let ?sd = "broadcast_to s (shape y)"
  let ?yu = "NDArray (shape y) (map2 (*) (data y) ?sd)"
  let ?mu = "NDArray (shape y) (map2 (*) (data m) ?sd)"
  let ?su = "NDArray (shape y) (map2 (*) (map sqrt (data v)) ?sd)"
  have lens: "length (data y) = ?k" "length (data m) = ?k" "length (data v) = ?k"
    "length ?sd = ?k"
    using assms(1-5) by (simp_all add: well_shaped_def length_broadcast_to)
  have wsv: "well_shaped (amap sqrt v)" using assms by (simp add: well_shaped_def amap_def)
  have 1: "bop (*) y s = Inr ?yu"
    using bop_onto [OF assms(3,6), where f = "(*)"] by simp
  have 2: "bop (*) m s = Inr ?mu"
    using bop_onto [OF assms(1), where f = "(*)" and b = s] assms(4,6) by simp
  have 3: "bop (*) (amap sqrt v) s = Inr ?su"
    using bop_onto [OF wsv, where f = "(*)" and b = s] assms(5,6) by (simp add: amap_def)
  have w: "well_shaped ?yu" "well_shaped ?mu" "well_shaped ?su"
    using lens by (simp_all add: well_shaped_def)
  have 4: "norm_logpdf ?yu ?mu ?su =
    Inr (NDArray (shape y)
      (map (\<lambda>i. norm_logpdf1 (data y ! i * ?sd ! i) (data m ! i * ?sd ! i)
                  (sqrt (data v ! i) * ?sd ! i))
         [0..<?k]))"
    using norm_logpdf_same [OF w] lens by simp
  show ?thesis
    unfolding lu_point_def 1 2 3 4 bind_err_simps
    by (simp add: amap_def clipped_logpdf1_def component_lu_def)
qed

subsection \<open>The loop over the samples and the mixture likelihood\<close>


lemma getitem_valid:
  assumes "shape a = S # sh" "length (data a) = S * prod_list sh" "n < S"
  shows "getitem a n
    = Inr (NDArray sh (map (\<lambda>i. data a ! (n * prod_list sh + i)) [0..<prod_list sh]))"
proof -
  let ?k = "prod_list sh"
  have "n * ?k + ?k \<le> S * ?k"
    using assms(3) by (metis Suc_leI mult_Suc mult_le_mono1 add.commute)
  then have len: "length (take ?k (drop (n * ?k) (data a))) = ?k"
    using assms(2) by simp
  have "take ?k (drop (n * ?k) (data a)) = map (\<lambda>i. data a ! (n * ?k + i)) [0..<?k]"
    using len by (intro nth_equalityI) simp_all
  then show ?thesis using assms by (simp add: getitem_def)
qed

lemma l_point_slice:
  assumes "shape m = S # sh" "length (data m) = S * prod_list sh"
    "shape v = S # sh" "length (data v) = S * prod_list sh"
    "shape y = sh" "length (data y) = prod_list sh" "n < S"
    "getitem m n = Inr mn" "getitem v n = Inr vn"
  shows "l_point mn vn y
    = Inr (NDArray sh (map (component_l (prod_list sh) (data y) (data m) (data v) n)
             [0..<prod_list sh]))"
proof -
  let ?k = "prod_list sh"
  have mn: "mn = NDArray sh (map (\<lambda>i. data m ! (n * ?k + i)) [0..<?k])"
    using getitem_valid [OF assms(1,2,7)] assms(8) by simp
  have vn: "vn = NDArray sh (map (\<lambda>i. data v ! (n * ?k + i)) [0..<?k])"
    using getitem_valid [OF assms(3,4,7)] assms(9) by simp
  have w: "well_shaped mn" "well_shaped vn" "well_shaped y" "shape mn = shape y"
    "shape vn = shape y"
    using assms(5,6) by (simp_all add: mn vn well_shaped_def)
  show ?thesis
    unfolding l_point_same [OF w]
    using assms(5) by (simp add: mn vn component_l_def)
qed

lemma lu_point_slice:
  assumes "shape m = S # sh" "length (data m) = S * prod_list sh"
    "shape v = S # sh" "length (data v) = S * prod_list sh"
    "shape y = sh" "length (data y) = prod_list sh" "n < S"
    "getitem m n = Inr mn" "getitem v n = Inr vn"
    "broadcast_shapes sh (shape s) = Some sh"
  shows "lu_point mn vn y s
    = Inr (NDArray sh (map (component_lu (prod_list sh) (data y) (data m) (data v)
                              (broadcast_to s sh) n)
             [0..<prod_list sh]))"
proof -
  let ?k = "prod_list sh"
  have mn: "mn = NDArray sh (map (\<lambda>i. data m ! (n * ?k + i)) [0..<?k])"
    using getitem_valid [OF assms(1,2,7)] assms(8) by simp
  have vn: "vn = NDArray sh (map (\<lambda>i. data v ! (n * ?k + i)) [0..<?k])"
    using getitem_valid [OF assms(3,4,7)] assms(9) by simp
  have w: "well_shaped mn" "well_shaped vn" "well_shaped y" "shape mn = shape y"
    "shape vn = shape y" "broadcast_shapes (shape y) (shape s) = Some (shape y)"
    using assms(5,6,10) by (simp_all add: mn vn well_shaped_def)
  show ?thesis
    unfolding lu_point_same [OF w]
    using assms(5) by (simp add: mn vn component_lu_def)
qed

lemma sample_loop_valid:
  assumes "shape m = S # sh" "length (data m) = S * prod_list sh"
    "shape v = S # sh" "length (data v) = S * prod_list sh"
    "shape y = sh" "length (data y) = prod_list sh"
    "broadcast_shapes sh (shape s) = Some sh"
  shows "list_all (\<lambda>n. n < S) ns \<Longrightarrow>
    sample_loop m v y s ns =
    Inr (map (\<lambda>n. NDArray sh (map (component_l (prod_list sh) (data y) (data m) (data v) n)
                 [0..<prod_list sh])) ns,
         map (\<lambda>n. NDArray sh (map (component_lu (prod_list sh) (data y) (data m) (data v)
                 (broadcast_to s sh) n) [0..<prod_list sh])) ns)"
proof (induction ns)
  case Nil
  then show ?case by simp
next
  case (Cons n ns)
  then have n: "n < S" and rest: "list_all (\<lambda>n. n < S) ns" by simp_all
  obtain mn where mn: "getitem m n = Inr mn"
    using getitem_valid [OF assms(1,2) n] by simp
  obtain vn where vn: "getitem v n = Inr vn"
    using getitem_valid [OF assms(3,4) n] by simp
  show ?case
    by (simp add: mn vn l_point_slice [OF assms(1-6) n mn vn]
          lu_point_slice [OF assms(1-6) n mn vn assms(7)] Cons.IH [OF rest])
qed

lemma sum_list_exp_shift:
  "sum_list (map (\<lambda>r. exp (r - a)) rs) = exp (- a) * sum_list (map exp (rs :: real list))"
  by (induction rs) (simp_all add: algebra_simps exp_diff exp_minus divide_inverse)

lemma sum_list_exp_pos: "rs \<noteq> [] \<Longrightarrow> 0 < sum_list (map exp (rs :: real list))"
proof (induction rs)
  case Nil
  then show ?case by simp
next
  case (Cons r rs)
  have "0 \<le> sum_list (map exp rs)" by (rule sum_list_nonneg) auto
  then show ?case using exp_gt_zero [of r] by (simp add: add_pos_nonneg)
qed

text \<open>Subtracting any constant before exponentiating and adding it back changes nothing.\<close>

lemma lse_shift:
  assumes "rs \<noteq> []"
  shows "ln (sum_list (map (\<lambda>r. exp (r - a)) rs)) + a - ln (real (length rs))
         = ln (sum_list (map exp rs) / real (length rs))"
proof -
  have T: "0 < sum_list (map exp rs)" using assms by (rule sum_list_exp_pos)
  have S: "0 < real (length rs)" using assms by simp
  have "ln (sum_list (map (\<lambda>r. exp (r - a)) rs)) + a = ln (sum_list (map exp rs))"
    using T by (simp add: sum_list_exp_shift ln_mult)
  moreover have "ln (sum_list (map exp rs) / real (length rs))
      = ln (sum_list (map exp rs)) - ln (real (length rs))"
    using T S by (simp add: ln_div)
  ultimately show ?thesis by simp
qed

lemma logsumexp1_minus_log:
  assumes "cs \<noteq> []"
  shows "(case logsumexp1 cs of NaN \<Rightarrow> NaN | Fin r \<Rightarrow> Fin (r - ln (real (length cs))))
         = mixture_logdensity cs"
proof (cases "list_ex is_nan cs")
  case True
  then show ?thesis by (simp add: logsumexp1_def mixture_logdensity_def)
next
  case False
  let ?rs = "map the_fin cs"
  have A: "logsumexp1 cs
      = Fin (ln (sum_list (map (\<lambda>r. exp (r - Max (set ?rs))) ?rs)) + Max (set ?rs))"
    using False by (simp only: logsumexp1_def Let_def if_False)
  have B: "mixture_logdensity cs = Fin (ln (sum_list (map exp ?rs) / real (length cs)))"
    using False by (simp add: mixture_logdensity_def comp_def)
  show ?thesis
    using lse_shift [of ?rs "Max (set ?rs)"] assms by (simp add: A B)
qed

lemma mixture_loglik_valid:
  assumes "0 < S"
  shows "mixture_loglik S (map (\<lambda>n. NDArray sh (map (c n) [0..<prod_list sh])) [0..<S])
    = Inr (spec_mixture_loglik S (prod_list sh) c)"
proof -
  let ?k = "prod_list sh"
  let ?ls = "map (\<lambda>n. NDArray sh (map (c n) [0..<?k])) [0..<S]"
  let ?col = "\<lambda>i. map (\<lambda>s. c s i) [0..<S]"
  obtain a as where ls: "?ls = a # as" "shape a = sh"
    using assms by (cases ?ls) (auto simp add: upt_conv_Cons)
  have "list_all (\<lambda>b. shape b = sh) ?ls" by (simp add: list_all_iff)
  then have all: "list_all (\<lambda>b. shape b = shape a) as" using ls by simp
  have col: "\<And>i. i < ?k \<Longrightarrow> map (\<lambda>b. data b ! i) ?ls = ?col i"
    by (simp add: comp_def)
  have 1: "logsumexp ?ls = Inr (NDArray sh (map (\<lambda>i. logsumexp1 (?col i)) [0..<?k]))"
  proof -
    have "logsumexp (a # as)
        = Inr (NDArray sh (map (\<lambda>i. logsumexp1 (map (\<lambda>b. data b ! i) (a # as))) [0..<?k]))"
      using all ls(2) by (simp add: logsumexp_def)
    then have "logsumexp ?ls
        = Inr (NDArray sh (map (\<lambda>i. logsumexp1 (map (\<lambda>b. data b ! i) ?ls)) [0..<?k]))"
      by (simp only: ls(1))
    also have "map (\<lambda>i. logsumexp1 (map (\<lambda>b. data b ! i) ?ls)) [0..<?k]
       = map (\<lambda>i. logsumexp1 (?col i)) [0..<?k]"
      using col by (intro map_cong refl arg_cong [where f = logsumexp1]) simp
    finally show ?thesis .
  qed
  have 2: "(case logsumexp1 (?col i) of NaN \<Rightarrow> NaN | Fin r \<Rightarrow> Fin (r - ln (real S)))
      = mixture_logdensity (?col i)" for i
  proof -
    have "?col i \<noteq> []" using assms by simp
    from logsumexp1_minus_log [OF this] show ?thesis by (simp cong: fval.case_cong)
  qed
  show ?thesis
    unfolding mixture_loglik_def 1 bind_err_simps
    by (simp add: amap_def spec_mixture_loglik_def comp_def 2)
qed

lemma residual_metrics_onto:
  assumes "well_shaped d" "broadcast_shapes (shape d) (shape s) = Some (shape d)"
  shows "residual_metrics d s
    = Inr (residual_values (data d) (map2 (*) (data d) (broadcast_to s (shape d))))"
  using bop_onto [OF assms, where f = "(*)"] by (simp add: residual_metrics_def)

lemma run_point_explicit:
  assumes "well_shaped m" "well_shaped v" "well_shaped y" "shape m = shape y"
    "shape v = shape y" "broadcast_shapes (shape y) (shape s) = Some (shape y)"
  shows "run_point m v y s =
    Inr (mk_res
      (np_average (map (component_l (prod_list (shape y)) (data y) (data m) (data v) 0)
         [0..<prod_list (shape y)]))
      (np_average (map (component_lu (prod_list (shape y)) (data y) (data m) (data v)
                          (broadcast_to s (shape y)) 0)
         [0..<prod_list (shape y)]))
      (residual_values (map2 (-) (data y) (data m))
         (map2 (*) (map2 (-) (data y) (data m)) (broadcast_to s (shape y)))))"
proof -
  let ?d = "NDArray (shape y) (map2 (-) (data y) (data m))"
  have d: "bop (-) y m = Inr ?d"
    using bop_same [OF assms(3,1,4), where f = "(-)"] by simp
  have w: "well_shaped ?d" using bop_well_shaped [OF d] .
  have b: "broadcast_shapes (shape ?d) (shape s) = Some (shape ?d)" using assms(6) by simp
  show ?thesis
    unfolding run_point_def l_point_same [OF assms(1-5)] lu_point_same [OF assms] d
      bind_err_simps residual_metrics_onto [OF w b]
    by simp
qed

lemma mean_axis0_valid:
  assumes "shape m = S # sh"
  shows "shape (mean_axis0 m) = sh" "well_shaped (mean_axis0 m)"
  using assms by (simp_all add: mean_axis0_def well_shaped_def Let_def)

lemma run_samples_explicit:
  assumes "shape m = S # sh" "length (data m) = S * prod_list sh"
    "shape v = S # sh" "length (data v) = S * prod_list sh"
    "shape y = sh" "length (data y) = prod_list sh" "0 < S"
    "broadcast_shapes sh (shape s) = Some sh"
  shows "run_samples m v y s =
    Inr (mk_res
      (spec_mixture_loglik S (prod_list sh)
         (component_l (prod_list sh) (data y) (data m) (data v)))
      (spec_mixture_loglik S (prod_list sh)
         (component_lu (prod_list sh) (data y) (data m) (data v) (broadcast_to s sh)))
      (residual_values (map2 (-) (data y) (data (mean_axis0 m)))
         (map2 (*) (map2 (-) (data y) (data (mean_axis0 m))) (broadcast_to s sh))))"
proof -
  let ?d = "NDArray (shape y) (map2 (-) (data y) (data (mean_axis0 m)))"
  have wy: "well_shaped y" using assms(5,6) by (simp add: well_shaped_def)
  have d: "bop (-) y (mean_axis0 m) = Inr ?d"
    using bop_same [OF wy mean_axis0_valid(2) [OF assms(1)], where f = "(-)"]
      mean_axis0_valid(1) [OF assms(1)] assms(5) by simp
  have w: "well_shaped ?d" using bop_well_shaped [OF d] .
  have b: "broadcast_shapes (shape ?d) (shape s) = Some (shape ?d)" using assms(5,8) by simp
  have ns: "list_all (\<lambda>n. n < S) [0..<S]" by (simp add: list_all_iff)
  have hd: "hd (shape m) = S" using assms(1) by simp
  show ?thesis
    unfolding run_samples_def hd sample_loop_valid [OF assms(1-6,8) ns] bind_err_simps fst_conv
      snd_conv mixture_loglik_valid [OF assms(7)] d residual_metrics_onto [OF w b]
    using assms(5) by simp
qed

subsection \<open>The result on valid inputs\<close>

lemma run_valid_samples:
  assumes "valid_input m v y" "shape m = [S, N, D]"
    "broadcast_shapes [N, D] (shape s) = Some [N, D]"
  shows "run m v y s =
    Inr (mk_res
      (spec_mixture_loglik S (N * D) (component_l (N * D) (data y) (data m) (data v)))
      (spec_mixture_loglik S (N * D)
         (component_lu (N * D) (data y) (data m) (data v) (broadcast_to s [N, D])))
      (residual_values (map2 (-) (data y) (data (mean_axis0 m)))
         (map2 (*) (map2 (-) (data y) (data (mean_axis0 m))) (broadcast_to s [N, D]))))"
proof -
  have sh: "shape m = S # [N, D]" "shape v = S # [N, D]" "shape y = [N, D]"
    using assms(1,2) unfolding valid_input_def by auto
  have len: "length (data m) = S * prod_list [N, D]" "length (data v) = S * prod_list [N, D]"
    "length (data y) = prod_list [N, D]"
    using assms(1) sh by (simp_all add: valid_input_def well_shaped_def)
  have "list_all (\<lambda>x. 0 \<le> x) (data v)"
    using assms(1) by (simp add: valid_input_def)
  then have "run m v y s = run_samples m v y s"
    using sh by (simp add: run_def)
  moreover have "0 < S" using assms(1,2) by (simp add: valid_input_def)
  ultimately show ?thesis
    using run_samples_explicit [OF sh(1) len(1) sh(2) len(2) sh(3) len(3), of s] assms(3)
    by simp
qed

lemma run_valid_point:
  assumes "valid_input m v y" "shape m = [N, D]"
    "broadcast_shapes [N, D] (shape s) = Some [N, D]"
  shows "run m v y s =
    Inr (mk_res
      (np_average (map (component_l (N * D) (data y) (data m) (data v) 0) [0..<N * D]))
      (np_average (map (component_lu (N * D) (data y) (data m) (data v)
                          (broadcast_to s [N, D]) 0) [0..<N * D]))
      (residual_values (map2 (-) (data y) (data m))
         (map2 (*) (map2 (-) (data y) (data m)) (broadcast_to s [N, D]))))"
proof -
  have sh: "shape m = shape y" "shape v = shape y" "shape y = [N, D]"
    using assms(1,2) unfolding valid_input_def by auto
  have w: "well_shaped m" "well_shaped v" "well_shaped y"
    using assms(1) by (simp_all add: valid_input_def)
  have b: "broadcast_shapes (shape y) (shape s) = Some (shape y)"
    using assms(3) sh(3) by simp
  have "list_all (\<lambda>x. 0 \<le> x) (data v)"
    using assms(1) by (simp add: valid_input_def)
  then have "run m v y s = run_point m v y s"
    using sh by (simp add: run_def)
  then show ?thesis
    using run_point_explicit [OF w sh(1,2) b] sh(3) by simp
qed

lemma upt2: "[0..<2] = [0, 1]" by (simp add: upt_rec)

subsection \<open>Ensembles of identical components\<close>




subsection \<open>The residual metrics under a scalar \<open>Y_std\<close>\<close>








subsection \<open>Clipped values and their reductions\<close>
















subsection \<open>Results that are numbers\<close>










lemma dom_mk_res: "dom (mk_res ll llu r) = set metric_names"
  by (auto simp add: mk_res_def metric_names_def)

lemma valid_input_cases:
  assumes "valid_input m v y"
  obtains (point) N D where "shape m = [N, D]" "shape y = [N, D]"
  | (samples) S N D where "shape m = [S, N, D]" "shape y = [N, D]" "0 < S"
proof -
  from assms [unfolded valid_input_def]
  have "length (shape m) = 2 \<and> shape m = shape y
      \<or> length (shape m) = 3 \<and> tl (shape m) = shape y \<and> 0 < hd (shape m)"
    by (elim conjE)
  then show ?thesis
  proof (elim disjE conjE)
    assume 1: "length (shape m) = 2" "shape m = shape y"
    from 1(1) obtain N D where "shape m = [N, D]"
      by (auto simp add: length_Suc_conv numeral_2_eq_2)
    with 1(2) show ?thesis by (intro point [of N D]) simp_all
  next
    assume 2: "length (shape m) = 3" "tl (shape m) = shape y" "0 < hd (shape m)"
    from 2(1) obtain S N D where "shape m = [S, N, D]"
      by (auto simp add: length_Suc_conv numeral_3_eq_3)
    with 2(2,3) show ?thesis by (intro samples [of S N D]) auto
  qed
qed


lemma run_valid_returns:
  assumes "valid_input m v y" "broadcast_shapes (shape y) (shape s) = Some (shape y)"
  shows "\<exists>ll llu r. run m v y s = Inr (mk_res ll llu r)"
  using assms(1)
proof (cases rule: valid_input_cases)
  case (point N D)
  have "broadcast_shapes [N, D] (shape s) = Some [N, D]" using assms(2) point(2) by simp
  from run_valid_point [OF assms(1) point(1) this] show ?thesis by blast
next
  case (samples S N D)
  have "broadcast_shapes [N, D] (shape s) = Some [N, D]" using assms(2) samples(2) by simp
  from run_valid_samples [OF assms(1) samples(1) this] show ?thesis by blast
qed



subsection \<open>Where an \<open>AssertionError\<close> can come from\<close>

lemma bind_err_eq_Inl:
  "bind_err x f = Inl e \<longleftrightarrow> x = Inl e \<or> (\<exists>a. x = Inr a \<and> f a = Inl e)"
  by (cases x) simp_all

lemma bop_no_assert: "bop f a b \<noteq> Inl AssertionError"
  by (simp add: bop_def split: option.splits)

lemma getitem_no_assert: "getitem a n \<noteq> Inl AssertionError"
  by (simp add: getitem_def)

lemma norm_logpdf_no_assert: "norm_logpdf x loc scale \<noteq> Inl AssertionError"
  by (simp add: norm_logpdf_def bind_err_eq_Inl bop_no_assert)

lemma l_point_no_assert: "l_point m v y \<noteq> Inl AssertionError"
  by (simp add: l_point_def bind_err_eq_Inl norm_logpdf_no_assert)

lemma lu_point_no_assert: "lu_point m v y s \<noteq> Inl AssertionError"
  by (simp add: lu_point_def bind_err_eq_Inl norm_logpdf_no_assert bop_no_assert)

lemma residual_metrics_no_assert: "residual_metrics d s \<noteq> Inl AssertionError"
  by (simp add: residual_metrics_def bind_err_eq_Inl bop_no_assert)

lemma sample_loop_no_assert: "sample_loop m v y s ns \<noteq> Inl AssertionError"
  by (induction ns)
    (simp_all add: bind_err_eq_Inl getitem_no_assert l_point_no_assert lu_point_no_assert)

lemma mixture_loglik_no_assert: "mixture_loglik S ls \<noteq> Inl AssertionError"
  by (simp add: mixture_loglik_def logsumexp_def bind_err_eq_Inl split: list.splits)

lemma run_point_no_assert: "run_point m v y s \<noteq> Inl AssertionError"
  by (simp add: run_point_def bind_err_eq_Inl l_point_no_assert lu_point_no_assert
        bop_no_assert residual_metrics_no_assert)

lemma run_samples_no_assert: "run_samples m v y s \<noteq> Inl AssertionError"
  by (simp add: run_samples_def bind_err_eq_Inl sample_loop_no_assert mixture_loglik_no_assert
        bop_no_assert residual_metrics_no_assert)

lemma run_assertion_iff:
  "run m v y s = Inl AssertionError \<longleftrightarrow>
     length (shape m) \<noteq> length (shape v) \<or> length (shape m) \<notin> {2, 3}
     \<or> list_ex (\<lambda>x. x < 0) (data v)"
  using run_point_no_assert [of m v y s] run_samples_no_assert [of m v y s]
  by (auto simp add: run_def list_all_iff list_ex_iff not_le)

subsection \<open>The standard normal density at its mode\<close>

lemma std_logpdf_bounds:
  "log_eps \<le> - ln (sqrt (2 * pi))" "- ln (sqrt (2 * pi)) \<le> log_1_minus_eps"
proof -
  have a: "2 \<le> sqrt (2 * pi)"
    using pi_ge_two real_le_rsqrt [of 2 "2 * pi"] by simp
  have b: "sqrt (2 * pi) \<le> 3"
    using pi_less_4 by (intro real_le_lsqrt) simp_all
  have "ln (sqrt (2 * pi)) \<le> ln (10 ^ 12)"
    using a b by (subst ln_le_cancel_iff) simp_all
  then show "log_eps \<le> - ln (sqrt (2 * pi))"
    by (simp add: log_eps_def ln_div)
  have "ln (1 / (1 - 1 / 10 ^ 12)) \<le> ln (sqrt (2 * pi))"
    using a by (subst ln_le_cancel_iff) simp_all
  then show "- ln (sqrt (2 * pi)) \<le> log_1_minus_eps"
    by (simp add: log_1_minus_eps_def ln_div)
qed

lemma ln_inverse_sqrt_2pi: "ln (1 / sqrt (2 * pi)) = - ln (sqrt (2 * pi))"
  by (simp add: ln_div)

lemma run_unit_point:
  "run (NDArray [1, 1] [1]) (NDArray [1, 1] [1]) (NDArray [1, 1] [1]) (NDArray [] [1])
   = Inr (mk_res (Fin (- ln (sqrt (2 * pi)))) (Fin (- ln (sqrt (2 * pi))))
            (Fin 0, Fin 0, Fin 0, Fin 0))"
  using std_logpdf_bounds
  by (simp add: eval_defs norm_logpdf1_def min_def max_def)




subsection \<open>C1: the ensemble log-likelihood is the mean mixture log-density\<close>

text \<open>
  C1. For an ensemble prediction of shape \<open>[S, N, D]\<close> with at least one component, test
  targets of shape \<open>[N, D]\<close> and a \<open>Y_std\<close> that is a scalar or broadcasts to \<open>[N, D]\<close>, the
  returned \<open>test_loglik\<close> is the arithmetic mean over the \<open>N * D\<close> test elements of the
  log-density of the equal-weight mixture, \<open>ln ((1/S) * sum_s exp c_s)\<close>, where \<open>c_s\<close> is the
  clipped Gaussian log-density of the element under component \<open>s\<close>. The code reaches it
  as log-sum-exp (with the maximum subtracted) minus \<open>ln S\<close>.
  \<open>test_loglik_unnormalized\<close> is the same mean of the de-normalized clipped
  log-densities.
\<close>

theorem ensemble_loglik_is_mixture_mean:
  assumes "valid_input m v Y_test" "shape m = [S, N, D]"
    "broadcast_shapes [N, D] (shape Y_std) = Some [N, D]"
  shows "logliks (run m v Y_test Y_std) =
    Inr (Some (spec_mixture_loglik S (N * D)
                 (component_l (N * D) (data Y_test) (data m) (data v))),
         Some (spec_mixture_loglik S (N * D)
                 (component_lu (N * D) (data Y_test) (data m) (data v)
                    (broadcast_to Y_std [N, D]))))"
  unfolding run_valid_samples [OF assms] by (simp add: logliks_def mk_res_def)

theorem ensemble_loglik_is_mixture_mean_witness:
  "valid_input (NDArray [2, 1, 1] [1, 2]) (NDArray [2, 1, 1] [1, 4]) (NDArray [1, 1] [1])
   \<and> broadcast_shapes [1, 1] (shape (NDArray [] [1 :: real])) = Some [1, 1]
   \<and> logliks (run (NDArray [2, 1, 1] [1, 2]) (NDArray [2, 1, 1] [1, 4]) (NDArray [1, 1] [1])
        (NDArray [] [1]))
     = Inr (Some (spec_mixture_loglik 2 (1 * 1) (component_l (1 * 1) [1] [1, 2] [1, 4])),
            Some (spec_mixture_loglik 2 (1 * 1)
                    (component_lu (1 * 1) [1] [1, 2] [1, 4]
                       (broadcast_to (NDArray [] [1]) [1, 1]))))"
  using ensemble_loglik_is_mixture_mean [of "NDArray [2, 1, 1] [1, 2]" "NDArray [2, 1, 1] [1, 4]"
      "NDArray [1, 1] [1]" 2 1 1 "NDArray [] [1]"]
  by (simp add: valid_input_def well_shaped_def broadcast_shapes_def)

subsection \<open>C2: what the assertions reject\<close>

text \<open>
  The assertions compare the ranks of \<open>m\<close> and \<open>v\<close>, not their shapes. A mean of shape
  \<open>[1, 1]\<close> and a variance of shape \<open>[2, 1]\<close> pass them, are broadcast against each other
  and yield metrics.
\<close>

theorem shape_mismatch_not_rejected:
  "shape (NDArray [1, 1] [1 :: real]) \<noteq> shape (NDArray [2, 1] [1 :: real, 1])
   \<and> run (NDArray [1, 1] [1]) (NDArray [2, 1] [1, 1]) (NDArray [1, 1] [1]) (NDArray [] [1])
     = Inr (mk_res (Fin (- ln (sqrt (2 * pi)))) (Fin (- ln (sqrt (2 * pi))))
              (Fin 0, Fin 0, Fin 0, Fin 0))"
  using std_logpdf_bounds
  by (simp add: eval_defs norm_logpdf1_def min_def max_def upt2)

text \<open>
  C2, amended. Whenever the ranks of mean and variance differ, or the rank is not 2 or
  3, or an element of the variance is negative, the evaluator fails with an
  \<open>AssertionError\<close> and produces no metric, whatever \<open>Y_test\<close> and \<open>Y_std\<close> are.
\<close>

theorem assertions_reject:
  "length (shape m) \<noteq> length (shape v) \<or> length (shape m) \<notin> {2, 3}
     \<or> list_ex (\<lambda>x. x < 0) (data v)
   \<Longrightarrow> run m v Y_test Y_std = Inl AssertionError"
  by (auto simp add: run_def list_all_iff list_ex_iff not_le)

theorem assertions_reject_witness:
  "list_ex (\<lambda>x. x < 0) (data (NDArray [1, 1] [- 1 / 10 :: real]))
   \<and> run (NDArray [1, 1] [1]) (NDArray [1, 1] [- 1 / 10]) (NDArray [1, 1] [1]) (NDArray [] [1])
     = Inl AssertionError"
  using assertions_reject [of "NDArray [1, 1] [1]" "NDArray [1, 1] [- 1 / 10]"
      "NDArray [1, 1] [1]" "NDArray [] [1]"]
  by simp

subsection \<open>C3: the six metrics are numbers\<close>




subsection \<open>C4: one component against the point path\<close>



subsection \<open>C5: identical components\<close>



subsection \<open>C6: the de-normalized RMSE\<close>



subsection \<open>C7: what enters the reductions\<close>




subsection \<open>C8: the concrete scenario\<close>

text \<open>
  C8. For the point prediction \<open>mean = [[1.0]]\<close>, \<open>variance = [[1.0]]\<close> with
  \<open>Y_test = [[1.0]]\<close> and \<open>Y_std = 1.0\<close> the evaluator returns \<open>test_mae = 0\<close>,
  \<open>test_rmse = 0\<close> and \<open>test_loglik = ln (1 / sqrt (2 pi))\<close>; this is the log-density
  itself, which the clip leaves as it is, because it lies inside
  \<open>[ln 1e-12, ln (1 - 1e-12)]\<close>.
\<close>

theorem concrete_scenario:
  "map_sum id (\<lambda>res. (res ''test_mae'', res ''test_rmse'', res ''test_loglik''))
     (run (NDArray [1, 1] [1]) (NDArray [1, 1] [1]) (NDArray [1, 1] [1]) (NDArray [] [1]))
   = Inr (Some (Fin 0), Some (Fin 0), Some (Fin (ln (1 / sqrt (2 * pi)))))
   \<and> norm_logpdf1 1 1 (sqrt 1) = Fin (ln (1 / sqrt (2 * pi)))
   \<and> clipped_logpdf1 1 1 (sqrt 1) = norm_logpdf1 1 1 (sqrt 1)
   \<and> log_eps \<le> ln (1 / sqrt (2 * pi))
   \<and> ln (1 / sqrt (2 * pi)) \<le> log_1_minus_eps"
  using std_logpdf_bounds unfolding run_unit_point
  by (simp add: mk_res_def ln_inverse_sqrt_2pi norm_logpdf1_def
        clipped_logpdf1_def np_clip_def min_def max_def)

subsection \<open>C9: the log-likelihoods stay within the clipping interval\<close>




subsection \<open>C10: \<open>Y_std\<close> is not validated\<close>

text \<open>
  C10. The only checks are the three assertions on \<open>m\<close> and \<open>v\<close>: the evaluator fails
  with an \<open>AssertionError\<close> exactly when one of them fails, whatever \<open>Y_std\<close> is. For
  every input that passes them (with test targets of shape \<open>[N, D]\<close> and a \<open>Y_std\<close> that is
  a scalar or broadcasts to that shape) and whose \<open>Y_std\<close> has no positive element, the call
  is not rejected: it returns the mapping with the six metric keys.
\<close>

theorem nonpositive_Y_std_not_rejected:
  "(run m v Y_test Y_std = Inl AssertionError \<longleftrightarrow>
      length (shape m) \<noteq> length (shape v) \<or> length (shape m) \<notin> {2, 3}
      \<or> list_ex (\<lambda>x. x < 0) (data v))
   \<and> (valid_input m v Y_test
        \<and> broadcast_shapes (shape Y_test) (shape Y_std) = Some (shape Y_test)
        \<and> list_all (\<lambda>x. x \<le> 0) (data Y_std)
      \<longrightarrow> (\<exists>res. run m v Y_test Y_std = Inr res \<and> dom res = set metric_names))"
  using run_assertion_iff [of m v Y_test Y_std] run_valid_returns [of m v Y_test Y_std]
    dom_mk_res by auto

theorem nonpositive_Y_std_not_rejected_witness:
  "valid_input (NDArray [1, 1] [1]) (NDArray [1, 1] [1]) (NDArray [1, 1] [1])
   \<and> list_all (\<lambda>x. x \<le> 0) (data (NDArray [] [- 1 :: real]))
   \<and> run (NDArray [1, 1] [1]) (NDArray [1, 1] [1]) (NDArray [1, 1] [1]) (NDArray [] [- 1])
       \<noteq> Inl AssertionError
   \<and> (\<exists>res. run (NDArray [1, 1] [1]) (NDArray [1, 1] [1]) (NDArray [1, 1] [1])
               (NDArray [] [- 1]) = Inr res
        \<and> dom res = set metric_names)"
  using nonpositive_Y_std_not_rejected [of "NDArray [1, 1] [1]" "NDArray [1, 1] [1]"
      "NDArray [1, 1] [1]" "NDArray [] [- 1]"]
  by (simp add: valid_input_def well_shaped_def broadcast_shapes_def)

end
